theory Spec2Isabelle
  imports Complex_Main
begin

section \<open>Design-token mixins of \<open>src/styles/mixins\<close>\<close>

text \<open>
  The repository's only computing code is the SCSS module that \<open>vite.config.js\<close> loads
  ahead of every style sheet: the mixins \<open>generate-palette\<close>, \<open>generate-layouts-overlay\<close>,
  \<open>font-sizes\<close>, \<open>font-weights\<close> and the function \<open>scale\<close>. Each is embedded below as a
  HOL function of its parameters. A hyphen of a Sass name is written as an underscore.

  Sass numbers are double-precision floats; here they are exact rationals, so a statement
  below is about the arithmetic the style sheet denotes, not about rounding in the last bit.
\<close>

subsection \<open>Sass values\<close>

text \<open>A legacy RGB colour: three channels on the scale 0 to 255 and an alpha on 0 to 1.\<close>

record color =
  red :: rat
  green :: rat
  blue :: rat
  alpha :: rat

text \<open>A Sass number: a magnitude with its numerator units (\<open>8px\<close> has the units \<open>[''px'']\<close>).\<close>

record sass_number =
  magnitude :: rat
  units :: "string list"

definition unitless :: "rat \<Rightarrow> sass_number" where
  "unitless x = \<lparr>magnitude = x, units = []\<rparr>"

definition px :: "rat \<Rightarrow> sass_number" where
  "px x = \<lparr>magnitude = x, units = [''px'']\<rparr>"

text \<open>The Sass operator \<open>*\<close> on two numbers multiplies the magnitudes and joins the units.\<close>

definition sass_times :: "sass_number \<Rightarrow> sass_number \<Rightarrow> sass_number" where
  "sass_times a b = \<lparr>magnitude = magnitude a * magnitude b, units = units a @ units b\<rparr>"

text \<open>
  What a declaration carries on its right-hand side. The value is kept as the Sass value
  that the style sheet writes there (the colour of \<open>#{$lightest}\<close>, the length \<open>24px\<close>), not as
  the text it is printed to.
\<close>

datatype css_value =
  ColorValue color
| NumberValue sass_number
| Keyword string

type_synonym css_declaration = "string \<times> css_value"

type_synonym style_rule = "string \<times> css_declaration list"

text \<open>
  What a mixin emits into the rule that includes it: nested class rules and
  custom-property declarations, each in source order.
\<close>

record emitted =
  class_rules :: "style_rule list"
  custom_properties :: "css_declaration list"

subsection \<open>The functions of \<open>sass:color\<close> that the mixins call\<close>

definition white :: color where
  "white = \<lparr>red = 255, green = 255, blue = 255, alpha = 1\<rparr>"

definition black :: color where
  "black = \<lparr>red = 0, green = 0, blue = 0, alpha = 1\<rparr>"

text \<open>
  \<open>color.mix($color1, $color2, $weight)\<close> on legacy colours, as the Sass library computes it:
  the weight (a percentage) and the difference of the two alphas together give the share of
  \<open>$color1\<close> in each channel; the alpha is interpolated by the weight alone. The library
  rejects a weight outside 0 to 100; the mixins pass only the constants 30 to 95.
\<close>

definition color_mix :: "color \<Rightarrow> color \<Rightarrow> rat \<Rightarrow> color" where
  "color_mix color1 color2 weight =
     (let weightScale = weight / 100;
          normalizedWeight = weightScale * 2 - 1;
          alphaDistance = alpha color1 - alpha color2;
          combinedWeight1 =
            (if normalizedWeight * alphaDistance = - 1 then normalizedWeight
             else (normalizedWeight + alphaDistance) / (1 + normalizedWeight * alphaDistance));
          weight1 = (combinedWeight1 + 1) / 2;
          weight2 = 1 - weight1
      in \<lparr>red = red color1 * weight1 + red color2 * weight2,
          green = green color1 * weight1 + green color2 * weight2,
          blue = blue color1 * weight1 + blue color2 * weight2,
          alpha = alpha color1 * weightScale + alpha color2 * (1 - weightScale)\<rparr>)"

text \<open>\<open>color.channel($color, $channel, $space: rgb)\<close> for the three channels the source reads.\<close>

datatype rgb_channel = Red | Green | Blue

fun color_channel :: "color \<Rightarrow> rgb_channel \<Rightarrow> rat" where
  "color_channel c Red = red c"
| "color_channel c Green = green c"
| "color_channel c Blue = blue c"

text \<open>
  \<open>rgba($red, $green, $blue, $alpha)\<close> builds a legacy colour, clamping each channel to
  0..255 and the alpha to 0..1 as CSS does.
\<close>

definition clamp :: "rat \<Rightarrow> rat \<Rightarrow> rat \<Rightarrow> rat" where
  "clamp lo hi x = (if x < lo then lo else if hi < x then hi else x)"

definition rgba :: "rat \<Rightarrow> rat \<Rightarrow> rat \<Rightarrow> rat \<Rightarrow> color" where
  "rgba r g b a =
     \<lparr>red = clamp 0 255 r, green = clamp 0 255 g, blue = clamp 0 255 b, alpha = clamp 0 1 a\<rparr>"

text \<open>
  The HSL lightness of a colour in percent, as \<open>color.channel($c, "lightness", $space: hsl)\<close>
  reports it: the mean of the largest and the smallest channel, on the scale of 255.
\<close>

definition lightness :: "color \<Rightarrow> rat" where
  "lightness c =
     (max (red c) (max (green c) (blue c)) + min (red c) (min (green c) (blue c))) / 2 / 255 * 100"

text \<open>The colours of the data model: every channel within 0..255, the alpha within 0..1.\<close>

definition valid_color :: "color \<Rightarrow> bool" where
  "valid_color c \<longleftrightarrow>
     0 \<le> red c \<and> red c \<le> 255 \<and> 0 \<le> green c \<and> green c \<le> 255 \<and>
     0 \<le> blue c \<and> blue c \<le> 255 \<and> 0 \<le> alpha c \<and> alpha c \<le> 1"

subsection \<open>\<open>@mixin generate-palette($base-color, $name: 'primary')\<close>\<close>

text \<open>An omitted argument is \<open>None\<close> and takes the default of the signature.\<close>

definition generate_palette :: "color \<Rightarrow> string option \<Rightarrow> css_declaration list" where
  "generate_palette base_color name_arg =
     (let name = (case name_arg of None \<Rightarrow> ''primary'' | Some n \<Rightarrow> n);
          lightest = color_mix white base_color 95;
          lighter_4 = color_mix white base_color 85;
          lighter_3 = color_mix white base_color 80;
          lighter_2 = color_mix white base_color 70;
          lighter_1 = color_mix white base_color 50;
          base = base_color;
          darker_1 = color_mix black base_color 30;
          darker_2 = color_mix black base_color 60
      in [(''--'' @ name @ ''-1'', ColorValue lightest),
          (''--'' @ name @ ''-2'', ColorValue lighter_4),
          (''--'' @ name @ ''-3'', ColorValue lighter_3),
          (''--'' @ name @ ''-4'', ColorValue lighter_2),
          (''--'' @ name @ ''-5'', ColorValue lighter_1),
          (''--'' @ name @ ''-6'', ColorValue base),
          (''--'' @ name @ ''-7'', ColorValue (color_mix base darker_1 50)),
          (''--'' @ name @ ''-8'', ColorValue darker_1),
          (''--'' @ name @ ''-9'', ColorValue darker_2)])"

subsection \<open>\<open>@mixin generate-layouts-overlay($base-color, $color-name)\<close>\<close>

definition generate_layouts_overlay :: "color \<Rightarrow> string \<Rightarrow> css_declaration list" where
  "generate_layouts_overlay base_color color_name =
     (let base_r = color_channel base_color Red;
          base_g = color_channel base_color Green;
          base_b = color_channel base_color Blue;
          overlay_1 = rgba base_r base_g base_b (1 / 10);
          overlay_2 = rgba base_r base_g base_b (2 / 10);
          overlay_4 = rgba base_r base_g base_b (4 / 10);
          overlay_7 = rgba base_r base_g base_b (7 / 10)
      in [(''--'' @ color_name @ ''-overlay-1'', ColorValue overlay_1),
          (''--'' @ color_name @ ''-overlay-2'', ColorValue overlay_2),
          (''--'' @ color_name @ ''-overlay-4'', ColorValue overlay_4),
          (''--'' @ color_name @ ''-overlay-7'', ColorValue overlay_7)])"

subsection \<open>\<open>@mixin font-sizes($prefix: 'font')\<close>\<close>

definition font_sizes :: "string option \<Rightarrow> emitted" where
  "font_sizes prefix_arg =
     (let prefix = (case prefix_arg of None \<Rightarrow> ''font'' | Some p \<Rightarrow> p)
      in \<lparr>class_rules =
            [(''.'' @ prefix @ ''-xl'', [(''font-size'', NumberValue (px 24))]),
             (''.'' @ prefix @ ''-l'', [(''font-size'', NumberValue (px 20))]),
             (''.'' @ prefix @ ''-m'', [(''font-size'', NumberValue (px 18))]),
             (''.'' @ prefix @ ''-default'', [(''font-size'', NumberValue (px 16))]),
             (''.'' @ prefix @ ''-sm'', [(''font-size'', NumberValue (px 14))]),
             (''.'' @ prefix @ ''-xs'', [(''font-size'', NumberValue (px 12))]),
             (''.'' @ prefix @ ''-tiny'', [(''font-size'', NumberValue (px 11))]),
             (''.'' @ prefix @ ''-tiny-caps'',
                [(''font-size'', NumberValue (px 10)), (''text-transform'', Keyword ''uppercase'')])],
          custom_properties =
            [(''--'' @ prefix @ ''-xl'', NumberValue (px 24)),
             (''--'' @ prefix @ ''-l'', NumberValue (px 20)),
             (''--'' @ prefix @ ''-m'', NumberValue (px 18)),
             (''--'' @ prefix @ ''-default'', NumberValue (px 16)),
             (''--'' @ prefix @ ''-sm'', NumberValue (px 14)),
             (''--'' @ prefix @ ''-xs'', NumberValue (px 12)),
             (''--'' @ prefix @ ''-tiny'', NumberValue (px 11)),
             (''--'' @ prefix @ ''-tiny-caps'', NumberValue (px 10))]\<rparr>)"

subsection \<open>\<open>@mixin font-weights($prefix: 'font-weight')\<close>\<close>

definition font_weights :: "string option \<Rightarrow> emitted" where
  "font_weights prefix_arg =
     (let prefix = (case prefix_arg of None \<Rightarrow> ''font-weight'' | Some p \<Rightarrow> p)
      in \<lparr>class_rules =
            [(''.'' @ prefix @ ''-light'', [(''font-weight'', NumberValue (unitless 300))]),
             (''.'' @ prefix @ ''-regular'', [(''font-weight'', NumberValue (unitless 400))]),
             (''.'' @ prefix @ ''-semibold'', [(''font-weight'', NumberValue (unitless 600))]),
             (''.'' @ prefix @ ''-bold'', [(''font-weight'', NumberValue (unitless 700))]),
             (''.'' @ prefix @ ''-black'', [(''font-weight'', NumberValue (unitless 800))])],
          custom_properties =
            [(''--'' @ prefix @ ''-light'', NumberValue (unitless 300)),
             (''--'' @ prefix @ ''-regular'', NumberValue (unitless 400)),
             (''--'' @ prefix @ ''-semibold'', NumberValue (unitless 600)),
             (''--'' @ prefix @ ''-bold'', NumberValue (unitless 700)),
             (''--'' @ prefix @ ''-black'', NumberValue (unitless 800))]\<rparr>)"

subsection \<open>\<open>@function scale($multiple)\<close>\<close>

text \<open>
  The doc comment of \<open>scale\<close> announces an error for a multiple that is neither whole nor 0.5.
  The result type has a place for it; the body is \<open>$base: 8px; @return $base * $multiple;\<close>
  and holds no \<open>@error\<close>, so no branch below yields \<open>Inl\<close>.
\<close>

datatype scale_error = InvalidMultipleError

definition scale :: "sass_number \<Rightarrow> scale_error + sass_number" where
  "scale multiple = (let base = px 8 in Inr (sass_times base multiple))"

subsection \<open>Reading the emitted declarations\<close>

text \<open>The value a declaration list gives to a property, and the number inside a value.\<close>

definition value_of :: "css_declaration list \<Rightarrow> string \<Rightarrow> css_value option" where
  "value_of decls property = map_of decls property"

fun number_of :: "css_value \<Rightarrow> rat option" where
  "number_of (NumberValue n) = Some (magnitude n)"
| "number_of (ColorValue c) = None"
| "number_of (Keyword k) = None"

text \<open>The numbers among the values of a declaration list, in order.\<close>

definition numbers_of :: "css_declaration list \<Rightarrow> rat list" where
  "numbers_of decls = List.map_filter (number_of \<circ> snd) decls"

text \<open>The selectors of the rules that hold a given declaration.\<close>

definition rules_declaring :: "css_declaration \<Rightarrow> style_rule list \<Rightarrow> string list" where
  "rules_declaring d rs = map fst (filter (\<lambda>r. d \<in> set (snd r)) rs)"

text \<open>The value of the palette token \<open>p-i\<close>, the custom property \<open>--p-i\<close>.\<close>

definition palette_token :: "color \<Rightarrow> string \<Rightarrow> string \<Rightarrow> css_value option" where
  "palette_token c p i = value_of (generate_palette c (Some p)) (''--'' @ p @ ''-'' @ i)"

text \<open>
  The share that \<open>color_mix\<close> gives to an opaque first colour at a weight, when the second
  colour has alpha \<open>a\<close>: the \<open>weight1\<close> of its body with \<open>alphaDistance = 1 - a\<close>.
\<close>

definition mix_share :: "rat \<Rightarrow> rat \<Rightarrow> rat" where
  "mix_share weight a =
     (let normalizedWeight = weight / 100 * 2 - 1; alphaDistance = 1 - a
      in ((normalizedWeight + alphaDistance) / (1 + normalizedWeight * alphaDistance) + 1) / 2)"

section \<open>The style sheet as Sass syntax, run in the Sass runtime\<close>

text \<open>
  The functions above read each mixin as a function of its arguments. Whether that reading
  is sound is a question about the Sass program: a mixin body could read a global variable,
  draw from \<open>random()\<close> or ask for a \<open>unique-id()\<close>, and then two includes with the same
  arguments could differ. This section keeps the bodies as syntax and runs them with an
  evaluator that carries the state of the runtime, so that the question can be asked.
\<close>

subsection \<open>Syntax\<close>

datatype expr =
  Variable string
| Literal css_value
| FunctionCall string "expr list"
| Times expr expr

text \<open>A property name or selector: literal text with \<open>#{...}\<close> interpolations.\<close>

datatype part = Text string | Interpolation expr

datatype statement =
  VariableDeclaration string expr
| Declaration "part list" expr
| StyleRule "part list" "(part list \<times> expr) list"
| Return expr

text \<open>A mixin or function: its parameters, each with its default if it has one, and its body.\<close>

record callable =
  parameters :: "(string \<times> expr option) list"
  body :: "statement list"

subsection \<open>The runtime\<close>

text \<open>
  What a Sass compilation holds besides the arguments of a call: the module's global
  variables, the state of the generator behind \<open>random()\<close> and the counter behind
  \<open>unique-id()\<close>. Sass has no clock.
\<close>

record sass_runtime =
  global_variables :: "(string \<times> css_value) list"
  random_state :: nat
  unique_id_counter :: nat

datatype sass_error =
  UndefinedVariable string
| UndefinedFunction string
| InvalidArguments string
| UndefinedOperation
| NotAString
| MissingArgument string
| TooManyArguments
| NoReturn

type_synonym 'a outcome = "(sass_error + 'a) \<times> sass_runtime"

fun color_of :: "css_value \<Rightarrow> color option" where
  "color_of (ColorValue c) = Some c"
| "color_of (NumberValue n) = None"
| "color_of (Keyword k) = None"

fun string_of :: "css_value \<Rightarrow> string option" where
  "string_of (Keyword k) = Some k"
| "string_of (ColorValue c) = None"
| "string_of (NumberValue n) = None"

text \<open>
  The built-in functions: the three the style sheet calls, which compute from their
  arguments, and the two of Sass that do not. The third argument of \<open>color.channel\<close> is its
  \<open>$space\<close>.
\<close>

definition call_builtin :: "string \<Rightarrow> css_value list \<Rightarrow> sass_runtime \<Rightarrow> css_value outcome" where
  "call_builtin f args rt =
     (if f = ''color.mix'' then
        (case args of
           [a, b, w] \<Rightarrow>
             (case (color_of a, color_of b, number_of w) of
                (Some c1, Some c2, Some x) \<Rightarrow>
                  (if 0 \<le> x \<and> x \<le> 100 then (Inr (ColorValue (color_mix c1 c2 x)), rt)
                   else (Inl (InvalidArguments f), rt))
              | _ \<Rightarrow> (Inl (InvalidArguments f), rt))
         | _ \<Rightarrow> (Inl (InvalidArguments f), rt))
      else if f = ''color.channel'' then
        (case args of
           [a, ch, space] \<Rightarrow>
             (case (color_of a, string_of ch, string_of space) of
                (Some c, Some k, Some s) \<Rightarrow>
                  (if s \<noteq> ''rgb'' then (Inl (InvalidArguments f), rt)
                   else if k = ''red'' then (Inr (NumberValue (unitless (color_channel c Red))), rt)
                   else if k = ''green'' then (Inr (NumberValue (unitless (color_channel c Green))), rt)
                   else if k = ''blue'' then (Inr (NumberValue (unitless (color_channel c Blue))), rt)
                   else (Inl (InvalidArguments f), rt))
              | _ \<Rightarrow> (Inl (InvalidArguments f), rt))
         | _ \<Rightarrow> (Inl (InvalidArguments f), rt))
      else if f = ''rgba'' then
        (case args of
           [r, g, b, a] \<Rightarrow>
             (case (number_of r, number_of g, number_of b, number_of a) of
                (Some x, Some y, Some z, Some t) \<Rightarrow> (Inr (ColorValue (rgba x y z t)), rt)
              | _ \<Rightarrow> (Inl (InvalidArguments f), rt))
         | _ \<Rightarrow> (Inl (InvalidArguments f), rt))
      else if f = ''random'' then
        (Inr (NumberValue (unitless (of_nat (random_state rt mod 1000) / 1000))),
         rt\<lparr>random_state := (random_state rt * 1103515245 + 12345) mod 2147483648\<rparr>)
      else if f = ''unique-id'' then
        (Inr (Keyword (CHR ''u'' # replicate (unique_id_counter rt) CHR ''x'')),
         rt\<lparr>unique_id_counter := Suc (unique_id_counter rt)\<rparr>)
      else (Inl (UndefinedFunction f), rt))"

subsection \<open>Evaluation\<close>

text \<open>
  A variable is looked up among the locals of the call first (its parameters and the
  variables its body has declared), then among the globals. The arguments of a call are
  evaluated from left to right, each in the runtime the one before left behind.
\<close>

fun eval_expr :: "(string \<times> css_value) list \<Rightarrow> expr \<Rightarrow> sass_runtime \<Rightarrow> css_value outcome"
  and eval_args :: "(string \<times> css_value) list \<Rightarrow> expr list \<Rightarrow> sass_runtime \<Rightarrow> css_value list outcome"
  where
  "eval_expr locals (Variable x) rt =
     (case map_of locals x of
        Some v \<Rightarrow> (Inr v, rt)
      | None \<Rightarrow>
          (case map_of (global_variables rt) x of
             Some v \<Rightarrow> (Inr v, rt)
           | None \<Rightarrow> (Inl (UndefinedVariable x), rt)))"
| "eval_expr locals (Literal v) rt = (Inr v, rt)"
| "eval_expr locals (FunctionCall f args) rt =
     (case eval_args locals args rt of
        (Inl e, rt1) \<Rightarrow> (Inl e, rt1)
      | (Inr vs, rt1) \<Rightarrow> call_builtin f vs rt1)"
| "eval_expr locals (Times a b) rt =
     (case eval_expr locals a rt of
        (Inl e, rt1) \<Rightarrow> (Inl e, rt1)
      | (Inr x, rt1) \<Rightarrow>
          (case eval_expr locals b rt1 of
             (Inl e, rt2) \<Rightarrow> (Inl e, rt2)
           | (Inr y, rt2) \<Rightarrow>
               (case (x, y) of
                  (NumberValue m, NumberValue n) \<Rightarrow> (Inr (NumberValue (sass_times m n)), rt2)
                | _ \<Rightarrow> (Inl UndefinedOperation, rt2))))"
| "eval_args locals [] rt = (Inr [], rt)"
| "eval_args locals (e # es) rt =
     (case eval_expr locals e rt of
        (Inl err, rt1) \<Rightarrow> (Inl err, rt1)
      | (Inr v, rt1) \<Rightarrow>
          (case eval_args locals es rt1 of
             (Inl err, rt2) \<Rightarrow> (Inl err, rt2)
           | (Inr vs, rt2) \<Rightarrow> (Inr (v # vs), rt2)))"

text \<open>
  A name is the text of its parts. The style sheet interpolates only strings into names;
  another value there is reported as \<open>NotAString\<close>.
\<close>

fun eval_name :: "(string \<times> css_value) list \<Rightarrow> part list \<Rightarrow> sass_runtime \<Rightarrow> string outcome" where
  "eval_name locals [] rt = (Inr [], rt)"
| "eval_name locals (Text s # ps) rt =
     (case eval_name locals ps rt of
        (Inl err, rt1) \<Rightarrow> (Inl err, rt1)
      | (Inr t, rt1) \<Rightarrow> (Inr (s @ t), rt1))"
| "eval_name locals (Interpolation e # ps) rt =
     (case eval_expr locals e rt of
        (Inl err, rt1) \<Rightarrow> (Inl err, rt1)
      | (Inr v, rt1) \<Rightarrow>
          (case string_of v of
             None \<Rightarrow> (Inl NotAString, rt1)
           | Some s \<Rightarrow>
               (case eval_name locals ps rt1 of
                  (Inl err, rt2) \<Rightarrow> (Inl err, rt2)
                | (Inr t, rt2) \<Rightarrow> (Inr (s @ t), rt2))))"

fun eval_declarations ::
  "(string \<times> css_value) list \<Rightarrow> (part list \<times> expr) list \<Rightarrow> sass_runtime \<Rightarrow> css_declaration list outcome"
  where
  "eval_declarations locals [] rt = (Inr [], rt)"
| "eval_declarations locals ((name, e) # ds) rt =
     (case eval_name locals name rt of
        (Inl err, rt1) \<Rightarrow> (Inl err, rt1)
      | (Inr n, rt1) \<Rightarrow>
          (case eval_expr locals e rt1 of
             (Inl err, rt2) \<Rightarrow> (Inl err, rt2)
           | (Inr v, rt2) \<Rightarrow>
               (case eval_declarations locals ds rt2 of
                  (Inl err, rt3) \<Rightarrow> (Inl err, rt3)
                | (Inr rest, rt3) \<Rightarrow> (Inr ((n, v) # rest), rt3))))"

text \<open>
  The statements of a body in order: a variable declaration extends the locals, a
  declaration and a style rule are appended to what has been emitted, \<open>@return\<close> ends the
  body with a value.
\<close>

fun exec ::
  "statement list \<Rightarrow> (string \<times> css_value) list \<Rightarrow> emitted \<Rightarrow> sass_runtime \<Rightarrow>
     (emitted \<times> css_value option) outcome"
  where
  "exec [] locals out rt = (Inr (out, None), rt)"
| "exec (VariableDeclaration x e # rest) locals out rt =
     (case eval_expr locals e rt of
        (Inl err, rt1) \<Rightarrow> (Inl err, rt1)
      | (Inr v, rt1) \<Rightarrow> exec rest ((x, v) # locals) out rt1)"
| "exec (Declaration name e # rest) locals out rt =
     (case eval_declarations locals [(name, e)] rt of
        (Inl err, rt1) \<Rightarrow> (Inl err, rt1)
      | (Inr ds, rt1) \<Rightarrow>
          exec rest locals (out\<lparr>custom_properties := custom_properties out @ ds\<rparr>) rt1)"
| "exec (StyleRule selector decls # rest) locals out rt =
     (case eval_name locals selector rt of
        (Inl err, rt1) \<Rightarrow> (Inl err, rt1)
      | (Inr s, rt1) \<Rightarrow>
          (case eval_declarations locals decls rt1 of
             (Inl err, rt2) \<Rightarrow> (Inl err, rt2)
           | (Inr ds, rt2) \<Rightarrow>
               exec rest locals (out\<lparr>class_rules := class_rules out @ [(s, ds)]\<rparr>) rt2))"
| "exec (Return e # rest) locals out rt =
     (case eval_expr locals e rt of
        (Inl err, rt1) \<Rightarrow> (Inl err, rt1)
      | (Inr v, rt1) \<Rightarrow> (Inr (out, Some v), rt1))"

text \<open>
  Arguments are bound by position; a parameter left without an argument takes its default,
  evaluated at the call.
\<close>

fun bind_arguments ::
  "(string \<times> expr option) list \<Rightarrow> css_value list \<Rightarrow> (string \<times> css_value) list \<Rightarrow> sass_runtime \<Rightarrow>
     (string \<times> css_value) list outcome"
  where
  "bind_arguments [] [] locals rt = (Inr locals, rt)"
| "bind_arguments [] (v # vs) locals rt = (Inl TooManyArguments, rt)"
| "bind_arguments ((x, d) # ps) (v # vs) locals rt = bind_arguments ps vs ((x, v) # locals) rt"
| "bind_arguments ((x, None) # ps) [] locals rt = (Inl (MissingArgument x), rt)"
| "bind_arguments ((x, Some d) # ps) [] locals rt =
     (case eval_expr locals d rt of
        (Inl err, rt1) \<Rightarrow> (Inl err, rt1)
      | (Inr v, rt1) \<Rightarrow> bind_arguments ps [] ((x, v) # locals) rt1)"

text \<open>\<open>@include m(args)\<close>: what the mixin emits, and the runtime after it.\<close>

definition include_mixin :: "callable \<Rightarrow> css_value list \<Rightarrow> sass_runtime \<Rightarrow> emitted outcome" where
  "include_mixin m args rt =
     (case bind_arguments (parameters m) args [] rt of
        (Inl err, rt1) \<Rightarrow> (Inl err, rt1)
      | (Inr locals, rt1) \<Rightarrow>
          (case exec (body m) locals \<lparr>class_rules = [], custom_properties = []\<rparr> rt1 of
             (Inl err, rt2) \<Rightarrow> (Inl err, rt2)
           | (Inr (out, r), rt2) \<Rightarrow> (Inr out, rt2)))"

text \<open>A call of a function of the style sheet: the value of its \<open>@return\<close>.\<close>

definition call_function :: "callable \<Rightarrow> css_value list \<Rightarrow> sass_runtime \<Rightarrow> css_value outcome" where
  "call_function f args rt =
     (case bind_arguments (parameters f) args [] rt of
        (Inl err, rt1) \<Rightarrow> (Inl err, rt1)
      | (Inr locals, rt1) \<Rightarrow>
          (case exec (body f) locals \<lparr>class_rules = [], custom_properties = []\<rparr> rt1 of
             (Inl err, rt2) \<Rightarrow> (Inl err, rt2)
           | (Inr (out, None), rt2) \<Rightarrow> (Inl NoReturn, rt2)
           | (Inr (out, Some v), rt2) \<Rightarrow> (Inr v, rt2)))"

subsection \<open>The five bodies, as the style sheet writes them\<close>

definition percent :: "rat \<Rightarrow> css_value" where
  "percent x = NumberValue \<lparr>magnitude = x, units = [''%'']\<rparr>"

definition mix_call :: "expr \<Rightarrow> expr \<Rightarrow> rat \<Rightarrow> expr" where
  "mix_call a b w = FunctionCall ''color.mix'' [a, b, Literal (percent w)]"

definition custom_property :: "string \<Rightarrow> string \<Rightarrow> expr \<Rightarrow> statement" where
  "custom_property var suffix e =
     Declaration [Text ''--'', Interpolation (Variable var), Text suffix] e"

definition generate_palette_mixin :: callable where
  "generate_palette_mixin =
     \<lparr>parameters = [(''base-color'', None), (''name'', Some (Literal (Keyword ''primary'')))],
      body =
        [VariableDeclaration ''lightest'' (mix_call (Literal (ColorValue white)) (Variable ''base-color'') 95),
         VariableDeclaration ''lighter-4'' (mix_call (Literal (ColorValue white)) (Variable ''base-color'') 85),
         VariableDeclaration ''lighter-3'' (mix_call (Literal (ColorValue white)) (Variable ''base-color'') 80),
         VariableDeclaration ''lighter-2'' (mix_call (Literal (ColorValue white)) (Variable ''base-color'') 70),
         VariableDeclaration ''lighter-1'' (mix_call (Literal (ColorValue white)) (Variable ''base-color'') 50),
         VariableDeclaration ''base'' (Variable ''base-color''),
         VariableDeclaration ''darker-1'' (mix_call (Literal (ColorValue black)) (Variable ''base-color'') 30),
         VariableDeclaration ''darker-2'' (mix_call (Literal (ColorValue black)) (Variable ''base-color'') 60),
         custom_property ''name'' ''-1'' (Variable ''lightest''),
         custom_property ''name'' ''-2'' (Variable ''lighter-4''),
         custom_property ''name'' ''-3'' (Variable ''lighter-3''),
         custom_property ''name'' ''-4'' (Variable ''lighter-2''),
         custom_property ''name'' ''-5'' (Variable ''lighter-1''),
         custom_property ''name'' ''-6'' (Variable ''base''),
         custom_property ''name'' ''-7'' (mix_call (Variable ''base'') (Variable ''darker-1'') 50),
         custom_property ''name'' ''-8'' (Variable ''darker-1''),
         custom_property ''name'' ''-9'' (Variable ''darker-2'')]\<rparr>"

definition channel_call :: "string \<Rightarrow> expr" where
  "channel_call ch =
     FunctionCall ''color.channel''
       [Variable ''base-color'', Literal (Keyword ch), Literal (Keyword ''rgb'')]"

definition rgba_call :: "rat \<Rightarrow> expr" where
  "rgba_call a =
     FunctionCall ''rgba''
       [Variable ''base-r'', Variable ''base-g'', Variable ''base-b'', Literal (NumberValue (unitless a))]"

definition generate_layouts_overlay_mixin :: callable where
  "generate_layouts_overlay_mixin =
     \<lparr>parameters = [(''base-color'', None), (''color-name'', None)],
      body =
        [VariableDeclaration ''base-r'' (channel_call ''red''),
         VariableDeclaration ''base-g'' (channel_call ''green''),
         VariableDeclaration ''base-b'' (channel_call ''blue''),
         VariableDeclaration ''overlay-1'' (rgba_call (1 / 10)),
         VariableDeclaration ''overlay-2'' (rgba_call (2 / 10)),
         VariableDeclaration ''overlay-4'' (rgba_call (4 / 10)),
         VariableDeclaration ''overlay-7'' (rgba_call (7 / 10)),
         custom_property ''color-name'' ''-overlay-1'' (Variable ''overlay-1''),
         custom_property ''color-name'' ''-overlay-2'' (Variable ''overlay-2''),
         custom_property ''color-name'' ''-overlay-4'' (Variable ''overlay-4''),
         custom_property ''color-name'' ''-overlay-7'' (Variable ''overlay-7'')]\<rparr>"

definition class_rule :: "string \<Rightarrow> (string \<times> css_value) list \<Rightarrow> statement" where
  "class_rule suffix decls =
     StyleRule [Text ''.'', Interpolation (Variable ''prefix''), Text suffix]
       (map (\<lambda>(property, v). ([Text property], Literal v)) decls)"

definition font_sizes_mixin :: callable where
  "font_sizes_mixin =
     \<lparr>parameters = [(''prefix'', Some (Literal (Keyword ''font'')))],
      body =
        [class_rule ''-xl'' [(''font-size'', NumberValue (px 24))],
         class_rule ''-l'' [(''font-size'', NumberValue (px 20))],
         class_rule ''-m'' [(''font-size'', NumberValue (px 18))],
         class_rule ''-default'' [(''font-size'', NumberValue (px 16))],
         class_rule ''-sm'' [(''font-size'', NumberValue (px 14))],
         class_rule ''-xs'' [(''font-size'', NumberValue (px 12))],
         class_rule ''-tiny'' [(''font-size'', NumberValue (px 11))],
         class_rule ''-tiny-caps''
           [(''font-size'', NumberValue (px 10)), (''text-transform'', Keyword ''uppercase'')],
         custom_property ''prefix'' ''-xl'' (Literal (NumberValue (px 24))),
         custom_property ''prefix'' ''-l'' (Literal (NumberValue (px 20))),
         custom_property ''prefix'' ''-m'' (Literal (NumberValue (px 18))),
         custom_property ''prefix'' ''-default'' (Literal (NumberValue (px 16))),
         custom_property ''prefix'' ''-sm'' (Literal (NumberValue (px 14))),
         custom_property ''prefix'' ''-xs'' (Literal (NumberValue (px 12))),
         custom_property ''prefix'' ''-tiny'' (Literal (NumberValue (px 11))),
         custom_property ''prefix'' ''-tiny-caps'' (Literal (NumberValue (px 10)))]\<rparr>"

definition font_weights_mixin :: callable where
  "font_weights_mixin =
     \<lparr>parameters = [(''prefix'', Some (Literal (Keyword ''font-weight'')))],
      body =
        [class_rule ''-light'' [(''font-weight'', NumberValue (unitless 300))],
         class_rule ''-regular'' [(''font-weight'', NumberValue (unitless 400))],
         class_rule ''-semibold'' [(''font-weight'', NumberValue (unitless 600))],
         class_rule ''-bold'' [(''font-weight'', NumberValue (unitless 700))],
         class_rule ''-black'' [(''font-weight'', NumberValue (unitless 800))],
         custom_property ''prefix'' ''-light'' (Literal (NumberValue (unitless 300))),
         custom_property ''prefix'' ''-regular'' (Literal (NumberValue (unitless 400))),
         custom_property ''prefix'' ''-semibold'' (Literal (NumberValue (unitless 600))),
         custom_property ''prefix'' ''-bold'' (Literal (NumberValue (unitless 700))),
         custom_property ''prefix'' ''-black'' (Literal (NumberValue (unitless 800)))]\<rparr>"

definition scale_function :: callable where
  "scale_function =
     \<lparr>parameters = [(''multiple'', None)],
      body =
        [VariableDeclaration ''base'' (Literal (NumberValue (px 8))),
         Return (Times (Variable ''base'') (Variable ''multiple''))]\<rparr>"


section \<open>Mixing and lightness\<close>

text \<open>Between two opaque colours \<open>color_mix\<close> is the linear interpolation of each channel.\<close>

lemma color_mix_opaque:
  assumes "alpha c1 = 1" "alpha c2 = 1"
  shows "color_mix c1 c2 w =
    \<lparr>red = red c1 * (w / 100) + red c2 * (1 - w / 100),
     green = green c1 * (w / 100) + green c2 * (1 - w / 100),
     blue = blue c1 * (w / 100) + blue c2 * (1 - w / 100),
     alpha = 1\<rparr>"
  using assms by (simp add: color_mix_def Let_def algebra_simps)

text \<open>Lightness grows with the channels.\<close>

lemma lightness_mono:
  assumes "red a \<le> red b" "green a \<le> green b" "blue a \<le> blue b"
  shows "lightness a \<le> lightness b"
proof -
  have "max (red a) (max (green a) (blue a)) \<le> max (red b) (max (green b) (blue b))"
    using assms by (intro max.mono)
  moreover have "min (red a) (min (green a) (blue a)) \<le> min (red b) (min (green b) (blue b))"
    using assms by (intro min.mono)
  ultimately have "max (red a) (max (green a) (blue a)) + min (red a) (min (green a) (blue a))
      \<le> max (red b) (max (green b) (blue b)) + min (red b) (min (green b) (blue b))"
    by (rule add_mono)
  then show ?thesis
    unfolding lightness_def by (intro mult_right_mono divide_right_mono) simp_all
qed

lemma denominator_positive:
  fixes n d :: rat
  assumes "- 1 < n" "n < 1" "0 \<le> d" "d \<le> 1"
  shows "0 < 1 + n * d"
proof (cases "0 \<le> n")
  case True
  then have "0 \<le> n * d" using assms by simp
  then show ?thesis by simp
next
  case False
  then have "n * d \<ge> n * 1" using assms by (intro mult_left_mono_neg) auto
  then show ?thesis using assms by simp
qed

lemma combined_weight_mono:
  fixes n n' d :: rat
  assumes "- 1 < n" "n \<le> n'" "n' < 1" "0 \<le> d" "d \<le> 1"
  shows "(n + d) / (1 + n * d) \<le> (n' + d) / (1 + n' * d)"
proof -
  have p: "0 < 1 + n * d" using assms by (intro denominator_positive) auto
  have p': "0 < 1 + n' * d" using assms by (intro denominator_positive) auto
  have "0 \<le> 1 - d * d" using assms by (simp add: mult_le_one)
  then have "0 \<le> (n' - n) * (1 - d * d)" using assms by (intro mult_nonneg_nonneg) auto
  also have "(n' - n) * (1 - d * d) = (n' + d) * (1 + n * d) - (n + d) * (1 + n' * d)"
    by (simp add: algebra_simps)
  finally have "(n + d) * (1 + n' * d) \<le> (n' + d) * (1 + n * d)" by simp
  then show ?thesis using p p' by (simp add: frac_le_eq divide_le_eq pos_le_divide_eq field_simps)
qed

lemma combined_weight_lower:
  fixes n d :: rat
  assumes "- 1 < n" "n < 1" "0 \<le> d" "d \<le> 1"
  shows "- 1 \<le> (n + d) / (1 + n * d)"
proof -
  have p: "0 < 1 + n * d" using assms by (intro denominator_positive) auto
  have "0 \<le> (1 + n) * (1 + d)" using assms by (intro mult_nonneg_nonneg) auto
  then have "- (1 + n * d) \<le> n + d" by (simp add: algebra_simps)
  then show ?thesis using p by (simp add: pos_le_divide_eq)
qed


lemma mix_share_mono:
  assumes "0 < v" "v \<le> w" "w < 100" "0 \<le> a" "a \<le> 1"
  shows "mix_share v a \<le> mix_share w a"
proof -
  have "(v / 100 * 2 - 1 + (1 - a)) / (1 + (v / 100 * 2 - 1) * (1 - a))
      \<le> (w / 100 * 2 - 1 + (1 - a)) / (1 + (w / 100 * 2 - 1) * (1 - a))"
    using assms by (intro combined_weight_mono) auto
  then show ?thesis
    unfolding mix_share_def Let_def by (intro divide_right_mono add_right_mono) simp_all
qed

lemma mix_share_nonneg:
  assumes "0 < w" "w < 100" "0 \<le> a" "a \<le> 1"
  shows "0 \<le> mix_share w a"
proof -
  have "- 1 \<le> (w / 100 * 2 - 1 + (1 - a)) / (1 + (w / 100 * 2 - 1) * (1 - a))"
    using assms by (intro combined_weight_lower) auto
  then show ?thesis by (simp add: mix_share_def Let_def)
qed

lemma color_mix_opaque_first:
  assumes "alpha c1 = 1" "0 < w" "w < 100" "0 \<le> alpha c" "alpha c \<le> 1"
  shows "color_mix c1 c w =
    \<lparr>red = red c1 * mix_share w (alpha c) + red c * (1 - mix_share w (alpha c)),
     green = green c1 * mix_share w (alpha c) + green c * (1 - mix_share w (alpha c)),
     blue = blue c1 * mix_share w (alpha c) + blue c * (1 - mix_share w (alpha c)),
     alpha = w / 100 + alpha c * (1 - w / 100)\<rparr>"
proof -
  have "0 < 1 + (w / 100 * 2 - 1) * (1 - alpha c)"
    using assms by (intro denominator_positive) auto
  then have "(w / 100 * 2 - 1) * (1 - alpha c) \<noteq> - 1" by auto
  then show ?thesis
    using assms(1) by (simp add: color_mix_def mix_share_def Let_def)
qed

lemma toward_white_mono:
  fixes x :: rat
  assumes "s \<le> t" "x \<le> 255"
  shows "255 * s + x * (1 - s) \<le> 255 * t + x * (1 - t)"
proof -
  have "0 \<le> (t - s) * (255 - x)" using assms by (intro mult_nonneg_nonneg) auto
  then show ?thesis by (simp add: algebra_simps)
qed

lemma toward_black_mono:
  fixes x :: rat
  assumes "s \<le> t" "0 \<le> x"
  shows "0 * t + x * (1 - t) \<le> 0 * s + x * (1 - s)"
  using assms by (simp add: mult_left_mono)

lemma lightness_lighter:
  assumes "valid_color c" "0 < v" "v \<le> w" "w < 100"
  shows "lightness (color_mix white c v) \<le> lightness (color_mix white c w)"
proof -
  have a: "0 \<le> alpha c" "alpha c \<le> 1" and r: "red c \<le> 255" "green c \<le> 255" "blue c \<le> 255"
    using assms(1) by (simp_all add: valid_color_def)
  have s: "mix_share v (alpha c) \<le> mix_share w (alpha c)"
    using assms a by (intro mix_share_mono) auto
  have v: "0 < v" "v < 100" and w: "0 < w" "w < 100" using assms by auto
  show ?thesis
    by (rule lightness_mono)
       (simp_all add: color_mix_opaque_first [OF _ v a] color_mix_opaque_first [OF _ w a]
          white_def toward_white_mono [OF s] r)
qed

lemma lightness_base_le_lighter:
  assumes "valid_color c" "0 < w" "w < 100"
  shows "lightness c \<le> lightness (color_mix white c w)"
proof -
  have a: "0 \<le> alpha c" "alpha c \<le> 1" and r: "red c \<le> 255" "green c \<le> 255" "blue c \<le> 255"
    using assms(1) by (simp_all add: valid_color_def)
  have s: "0 \<le> mix_share w (alpha c)"
    using assms a by (intro mix_share_nonneg) auto
  have w: "0 < w" "w < 100" using assms by auto
  show ?thesis
    using toward_white_mono [OF s r(1)] toward_white_mono [OF s r(2)] toward_white_mono [OF s r(3)]
    by (intro lightness_mono) (simp_all add: color_mix_opaque_first [OF _ w a] white_def)
qed

lemma lightness_darker:
  assumes "valid_color c" "0 < v" "v \<le> w" "w < 100"
  shows "lightness (color_mix black c w) \<le> lightness (color_mix black c v)"
proof -
  have a: "0 \<le> alpha c" "alpha c \<le> 1" and r: "0 \<le> red c" "0 \<le> green c" "0 \<le> blue c"
    using assms(1) by (simp_all add: valid_color_def)
  have s: "mix_share v (alpha c) \<le> mix_share w (alpha c)"
    using assms a by (intro mix_share_mono) auto
  have v: "0 < v" "v < 100" and w: "0 < w" "w < 100" using assms by auto
  show ?thesis
    using toward_black_mono [OF s r(1)] toward_black_mono [OF s r(2)] toward_black_mono [OF s r(3)]
    by (intro lightness_mono) (simp_all add: color_mix_opaque_first [OF _ v a] color_mix_opaque_first [OF _ w a] black_def)
qed

lemma lightness_darker_le_base:
  assumes "valid_color c" "0 < w" "w < 100"
  shows "lightness (color_mix black c w) \<le> lightness c"
proof -
  have a: "0 \<le> alpha c" "alpha c \<le> 1" and r: "0 \<le> red c" "0 \<le> green c" "0 \<le> blue c"
    using assms(1) by (simp_all add: valid_color_def)
  have s: "0 \<le> mix_share w (alpha c)"
    using assms a by (intro mix_share_nonneg) auto
  have w: "0 < w" "w < 100" using assms by auto
  show ?thesis
    using toward_black_mono [OF s r(1)] toward_black_mono [OF s r(2)] toward_black_mono [OF s r(3)]
    by (intro lightness_mono) (simp_all add: color_mix_opaque_first [OF _ w a] black_def)
qed


lemma palette_lookup:
  "palette_token c p ''1'' = Some (ColorValue (color_mix white c 95))"
  "palette_token c p ''2'' = Some (ColorValue (color_mix white c 85))"
  "palette_token c p ''3'' = Some (ColorValue (color_mix white c 80))"
  "palette_token c p ''4'' = Some (ColorValue (color_mix white c 70))"
  "palette_token c p ''5'' = Some (ColorValue (color_mix white c 50))"
  "palette_token c p ''6'' = Some (ColorValue c)"
  "palette_token c p ''7'' = Some (ColorValue (color_mix c (color_mix black c 30) 50))"
  "palette_token c p ''8'' = Some (ColorValue (color_mix black c 30))"
  "palette_token c p ''9'' = Some (ColorValue (color_mix black c 60))"
  by (simp_all add: palette_token_def value_of_def generate_palette_def Let_def)


section \<open>The scale function\<close>

text \<open>
  C4. For every multiple that is a whole number or exactly 0.5, \<open>scale\<close> returns 8 length
  units times the multiple; \<open>scale(3)\<close> is 24px, \<open>scale(0.5)\<close> is 4px and \<open>scale(2)\<close> is 16px.
\<close>

theorem scale_returns_eight_times:
  "(m \<in> \<int> \<or> m = 1 / 2 \<longrightarrow> scale (unitless m) = Inr (px (8 * m))) \<and>
   scale (unitless 3) = Inr (px 24) \<and>
   scale (unitless (1 / 2)) = Inr (px 4) \<and>
   scale (unitless 2) = Inr (px 16)"
  by (simp add: scale_def sass_times_def px_def unitless_def)

theorem scale_returns_eight_times_witness:
  "((7::rat) \<in> \<int> \<or> (7::rat) = 1 / 2) \<and> scale (unitless 7) = Inr (px 56)"
  using scale_returns_eight_times [of 7] by simp

text \<open>
  C1. The claim wants \<open>scale(1.3)\<close> to fail with \<open>InvalidMultipleError\<close>. The function has no
  validation: at 1.3 it returns 10.4px, and it returns a value at every multiple.
\<close>

theorem scale_accepts_invalid_multiple:
  "scale (unitless (13 / 10)) = Inr (px (52 / 5)) \<and>
   scale (unitless (13 / 10)) \<noteq> Inl InvalidMultipleError \<and>
   (13 / 10 :: rat) \<notin> \<int> \<and> (13 / 10 :: rat) \<noteq> 1 / 2"
proof -
  have "(13 / 10 :: rat) \<notin> \<int>"
  proof
    assume "(13 / 10 :: rat) \<in> \<int>"
    then obtain k :: int where k: "(13 / 10 :: rat) = of_int k"
      by (auto elim: Ints_cases)
    then have "(13 :: rat) = of_int (10 * k)" by simp
    then have "(13 :: int) = 10 * k" by (metis of_int_eq_iff of_int_numeral)
    then show False by presburger
  qed
  then show ?thesis
    by (simp add: scale_def sass_times_def px_def unitless_def)
qed

section \<open>The palette generator\<close>


text \<open>
  C5. For every base colour of the data model the lightness does not grow along the tokens
  \<open>p-1\<close>, \<open>p-2\<close>, \<open>p-3\<close>, \<open>p-4\<close>, \<open>p-5\<close>, \<open>p-6\<close>, \<open>p-8\<close>, \<open>p-9\<close>: each is at least as light as
  the next.
\<close>

theorem palette_lightness_descends:
  assumes "valid_color c"
  shows "\<exists>c1 c2 c3 c4 c5 c6 c8 c9.
    palette_token c p ''1'' = Some (ColorValue c1) \<and>
    palette_token c p ''2'' = Some (ColorValue c2) \<and>
    palette_token c p ''3'' = Some (ColorValue c3) \<and>
    palette_token c p ''4'' = Some (ColorValue c4) \<and>
    palette_token c p ''5'' = Some (ColorValue c5) \<and>
    palette_token c p ''6'' = Some (ColorValue c6) \<and>
    palette_token c p ''8'' = Some (ColorValue c8) \<and>
    palette_token c p ''9'' = Some (ColorValue c9) \<and>
    lightness c1 \<ge> lightness c2 \<and> lightness c2 \<ge> lightness c3 \<and>
    lightness c3 \<ge> lightness c4 \<and> lightness c4 \<ge> lightness c5 \<and>
    lightness c5 \<ge> lightness c6 \<and> lightness c6 \<ge> lightness c8 \<and>
    lightness c8 \<ge> lightness c9"
proof -
  have "lightness (color_mix white c 85) \<le> lightness (color_mix white c 95)"
    using assms by (intro lightness_lighter) simp_all
  moreover have "lightness (color_mix white c 80) \<le> lightness (color_mix white c 85)"
    using assms by (intro lightness_lighter) simp_all
  moreover have "lightness (color_mix white c 70) \<le> lightness (color_mix white c 80)"
    using assms by (intro lightness_lighter) simp_all
  moreover have "lightness (color_mix white c 50) \<le> lightness (color_mix white c 70)"
    using assms by (intro lightness_lighter) simp_all
  moreover have "lightness c \<le> lightness (color_mix white c 50)"
    using assms by (intro lightness_base_le_lighter) simp_all
  moreover have "lightness (color_mix black c 30) \<le> lightness c"
    using assms by (intro lightness_darker_le_base) simp_all
  moreover have "lightness (color_mix black c 60) \<le> lightness (color_mix black c 30)"
    using assms by (intro lightness_darker) simp_all
  ultimately show ?thesis
    by (simp add: palette_lookup)
qed

theorem palette_lightness_descends_witness:
  "valid_color \<lparr>red = 0, green = 123, blue = 255, alpha = 1\<rparr> \<and>
   (\<exists>c1 c2 c3 c4 c5 c6 c8 c9.
    palette_token \<lparr>red = 0, green = 123, blue = 255, alpha = 1\<rparr> ''blue'' ''1'' = Some (ColorValue c1) \<and>
    palette_token \<lparr>red = 0, green = 123, blue = 255, alpha = 1\<rparr> ''blue'' ''2'' = Some (ColorValue c2) \<and>
    palette_token \<lparr>red = 0, green = 123, blue = 255, alpha = 1\<rparr> ''blue'' ''3'' = Some (ColorValue c3) \<and>
    palette_token \<lparr>red = 0, green = 123, blue = 255, alpha = 1\<rparr> ''blue'' ''4'' = Some (ColorValue c4) \<and>
    palette_token \<lparr>red = 0, green = 123, blue = 255, alpha = 1\<rparr> ''blue'' ''5'' = Some (ColorValue c5) \<and>
    palette_token \<lparr>red = 0, green = 123, blue = 255, alpha = 1\<rparr> ''blue'' ''6'' = Some (ColorValue c6) \<and>
    palette_token \<lparr>red = 0, green = 123, blue = 255, alpha = 1\<rparr> ''blue'' ''8'' = Some (ColorValue c8) \<and>
    palette_token \<lparr>red = 0, green = 123, blue = 255, alpha = 1\<rparr> ''blue'' ''9'' = Some (ColorValue c9) \<and>
    lightness c1 \<ge> lightness c2 \<and> lightness c2 \<ge> lightness c3 \<and>
    lightness c3 \<ge> lightness c4 \<and> lightness c4 \<ge> lightness c5 \<and>
    lightness c5 \<ge> lightness c6 \<and> lightness c6 \<ge> lightness c8 \<and>
    lightness c8 \<ge> lightness c9)"
proof
  show v: "valid_color \<lparr>red = 0, green = 123, blue = 255, alpha = 1\<rparr>"
    by (simp add: valid_color_def)
  show "\<exists>c1 c2 c3 c4 c5 c6 c8 c9.
    palette_token \<lparr>red = 0, green = 123, blue = 255, alpha = 1\<rparr> ''blue'' ''1'' = Some (ColorValue c1) \<and>
    palette_token \<lparr>red = 0, green = 123, blue = 255, alpha = 1\<rparr> ''blue'' ''2'' = Some (ColorValue c2) \<and>
    palette_token \<lparr>red = 0, green = 123, blue = 255, alpha = 1\<rparr> ''blue'' ''3'' = Some (ColorValue c3) \<and>
    palette_token \<lparr>red = 0, green = 123, blue = 255, alpha = 1\<rparr> ''blue'' ''4'' = Some (ColorValue c4) \<and>
    palette_token \<lparr>red = 0, green = 123, blue = 255, alpha = 1\<rparr> ''blue'' ''5'' = Some (ColorValue c5) \<and>
    palette_token \<lparr>red = 0, green = 123, blue = 255, alpha = 1\<rparr> ''blue'' ''6'' = Some (ColorValue c6) \<and>
    palette_token \<lparr>red = 0, green = 123, blue = 255, alpha = 1\<rparr> ''blue'' ''8'' = Some (ColorValue c8) \<and>
    palette_token \<lparr>red = 0, green = 123, blue = 255, alpha = 1\<rparr> ''blue'' ''9'' = Some (ColorValue c9) \<and>
    lightness c1 \<ge> lightness c2 \<and> lightness c2 \<ge> lightness c3 \<and>
    lightness c3 \<ge> lightness c4 \<and> lightness c4 \<ge> lightness c5 \<and>
    lightness c5 \<ge> lightness c6 \<and> lightness c6 \<ge> lightness c8 \<and>
    lightness c8 \<ge> lightness c9"
    by (rule palette_lightness_descends [OF v])
qed

section \<open>The overlay generator\<close>

text \<open>
  C3. For every base colour \<open>c\<close> of the data model and every name \<open>n\<close> the overlay generator
  emits exactly four tokens, \<open>n-overlay-1\<close>, \<open>n-overlay-2\<close>, \<open>n-overlay-4\<close> and \<open>n-overlay-7\<close>,
  each with the red, green and blue of \<open>c\<close> and the alpha 0.1, 0.2, 0.4 and 0.7 in turn.
\<close>

theorem generate_layouts_overlay_tokens:
  assumes "valid_color c"
  shows "length (generate_layouts_overlay c n) = 4 \<and>
    generate_layouts_overlay c n =
     [(''--'' @ n @ ''-overlay-1'',
         ColorValue \<lparr>red = red c, green = green c, blue = blue c, alpha = 1 / 10\<rparr>),
      (''--'' @ n @ ''-overlay-2'',
         ColorValue \<lparr>red = red c, green = green c, blue = blue c, alpha = 2 / 10\<rparr>),
      (''--'' @ n @ ''-overlay-4'',
         ColorValue \<lparr>red = red c, green = green c, blue = blue c, alpha = 4 / 10\<rparr>),
      (''--'' @ n @ ''-overlay-7'',
         ColorValue \<lparr>red = red c, green = green c, blue = blue c, alpha = 7 / 10\<rparr>)]"
  using assms
  by (simp add: generate_layouts_overlay_def rgba_def clamp_def valid_color_def Let_def)

theorem generate_layouts_overlay_tokens_witness:
  "valid_color \<lparr>red = 0, green = 105, blue = 232, alpha = 1\<rparr> \<and>
   generate_layouts_overlay \<lparr>red = 0, green = 105, blue = 232, alpha = 1\<rparr> ''primary'' =
     [(''--primary-overlay-1'', ColorValue \<lparr>red = 0, green = 105, blue = 232, alpha = 1 / 10\<rparr>),
      (''--primary-overlay-2'', ColorValue \<lparr>red = 0, green = 105, blue = 232, alpha = 1 / 5\<rparr>),
      (''--primary-overlay-4'', ColorValue \<lparr>red = 0, green = 105, blue = 232, alpha = 2 / 5\<rparr>),
      (''--primary-overlay-7'', ColorValue \<lparr>red = 0, green = 105, blue = 232, alpha = 7 / 10\<rparr>)]"
proof -
  have v: "valid_color \<lparr>red = 0, green = 105, blue = 232, alpha = 1\<rparr>"
    by (simp add: valid_color_def)
  show ?thesis
    using v generate_layouts_overlay_tokens [OF v, of "''primary''"] by simp
qed

section \<open>The typographic scales\<close>

text \<open>
  C6. With the default prefix \<open>font-sizes\<close> emits exactly eight custom properties:
  \<open>--font-xl\<close> 24px, \<open>--font-l\<close> 20px, \<open>--font-m\<close> 18px, \<open>--font-default\<close> 16px, \<open>--font-sm\<close> 14px,
  \<open>--font-xs\<close> 12px, \<open>--font-tiny\<close> 11px and \<open>--font-tiny-caps\<close> 10px, strictly descending.
  The uppercase transform is declared by the class rule \<open>.font-tiny-caps\<close> alone and by no
  custom property.
\<close>

theorem font_sizes_default_tokens:
  "custom_properties (font_sizes None) =
     [(''--font-xl'', NumberValue (px 24)), (''--font-l'', NumberValue (px 20)),
      (''--font-m'', NumberValue (px 18)), (''--font-default'', NumberValue (px 16)),
      (''--font-sm'', NumberValue (px 14)), (''--font-xs'', NumberValue (px 12)),
      (''--font-tiny'', NumberValue (px 11)), (''--font-tiny-caps'', NumberValue (px 10))] \<and>
   length (custom_properties (font_sizes None)) = 8 \<and>
   numbers_of (custom_properties (font_sizes None)) = [24, 20, 18, 16, 14, 12, 11, 10] \<and>
   sorted_wrt (>) (numbers_of (custom_properties (font_sizes None))) \<and>
   rules_declaring (''text-transform'', Keyword ''uppercase'') (class_rules (font_sizes None)) =
     [''.font-tiny-caps''] \<and>
   Keyword ''uppercase'' \<notin> snd ` set (custom_properties (font_sizes None)) \<and>
   ''text-transform'' \<notin> fst ` set (custom_properties (font_sizes None))"
  by (simp add: font_sizes_def px_def numbers_of_def rules_declaring_def
      Let_def)

text \<open>
  C7. With the default prefix \<open>font-weights\<close> emits exactly five class rules and exactly five
  custom properties, for light 300, regular 400, semibold 600, bold 700 and black 800; the
  token values ascend strictly.
\<close>

theorem font_weights_default_tokens:
  "class_rules (font_weights None) =
     [(''.font-weight-light'', [(''font-weight'', NumberValue (unitless 300))]),
      (''.font-weight-regular'', [(''font-weight'', NumberValue (unitless 400))]),
      (''.font-weight-semibold'', [(''font-weight'', NumberValue (unitless 600))]),
      (''.font-weight-bold'', [(''font-weight'', NumberValue (unitless 700))]),
      (''.font-weight-black'', [(''font-weight'', NumberValue (unitless 800))])] \<and>
   custom_properties (font_weights None) =
     [(''--font-weight-light'', NumberValue (unitless 300)),
      (''--font-weight-regular'', NumberValue (unitless 400)),
      (''--font-weight-semibold'', NumberValue (unitless 600)),
      (''--font-weight-bold'', NumberValue (unitless 700)),
      (''--font-weight-black'', NumberValue (unitless 800))] \<and>
   length (class_rules (font_weights None)) = 5 \<and>
   length (custom_properties (font_weights None)) = 5 \<and>
   numbers_of (custom_properties (font_weights None)) = [300, 400, 600, 700, 800] \<and>
   sorted_wrt (<) (numbers_of (custom_properties (font_weights None)))"
  by (simp add: font_weights_def unitless_def numbers_of_def Let_def)

section \<open>Running the bodies\<close>

text \<open>
  The evaluator tells a body that depends on the runtime from one that does not: a call of
  \<open>random()\<close> and a read of a global variable give different values in different runtimes.
\<close>

lemma random_depends_on_runtime:
  "fst (eval_expr [] (FunctionCall ''random'' [])
          \<lparr>global_variables = [], random_state = 1, unique_id_counter = 0\<rparr>) \<noteq>
   fst (eval_expr [] (FunctionCall ''random'' [])
          \<lparr>global_variables = [], random_state = 2, unique_id_counter = 0\<rparr>)"
  by (simp add: call_builtin_def unitless_def)

lemma global_read_depends_on_runtime:
  "fst (eval_expr [] (Variable ''accent'')
          \<lparr>global_variables = [(''accent'', ColorValue white)], random_state = 0,
           unique_id_counter = 0\<rparr>) \<noteq>
   fst (eval_expr [] (Variable ''accent'')
          \<lparr>global_variables = [(''accent'', ColorValue black)], random_state = 0,
           unique_id_counter = 0\<rparr>)"
  by (simp add: white_def black_def)

text \<open>
  Each body of the style sheet, run in any runtime, emits what its function computes from
  the arguments and hands the runtime back as it was.
\<close>

lemmas style_sheet_syntax =
  mix_call_def custom_property_def channel_call_def rgba_call_def class_rule_def percent_def

lemma run_generate_palette:
  "include_mixin generate_palette_mixin [ColorValue c, Keyword p] rt =
     (Inr \<lparr>class_rules = [], custom_properties = generate_palette c (Some p)\<rparr>, rt)"
  by (simp add: include_mixin_def generate_palette_mixin_def style_sheet_syntax call_builtin_def
      generate_palette_def Let_def)

lemma run_generate_palette_default:
  "include_mixin generate_palette_mixin [ColorValue c] rt =
     (Inr \<lparr>class_rules = [], custom_properties = generate_palette c None\<rparr>, rt)"
  by (simp add: include_mixin_def generate_palette_mixin_def style_sheet_syntax call_builtin_def
      generate_palette_def Let_def)

lemma run_generate_layouts_overlay:
  "include_mixin generate_layouts_overlay_mixin [ColorValue c, Keyword n] rt =
     (Inr \<lparr>class_rules = [], custom_properties = generate_layouts_overlay c n\<rparr>, rt)"
  by (simp add: include_mixin_def generate_layouts_overlay_mixin_def style_sheet_syntax
      call_builtin_def generate_layouts_overlay_def unitless_def Let_def)

lemma run_font_sizes:
  "include_mixin font_sizes_mixin [Keyword q] rt = (Inr (font_sizes (Some q)), rt)"
  by (simp add: include_mixin_def font_sizes_mixin_def style_sheet_syntax font_sizes_def Let_def)

lemma run_font_sizes_default:
  "include_mixin font_sizes_mixin [] rt = (Inr (font_sizes None), rt)"
  by (simp add: include_mixin_def font_sizes_mixin_def style_sheet_syntax font_sizes_def Let_def)

lemma run_font_weights:
  "include_mixin font_weights_mixin [Keyword q] rt = (Inr (font_weights (Some q)), rt)"
  by (simp add: include_mixin_def font_weights_mixin_def style_sheet_syntax font_weights_def
      Let_def)

lemma run_font_weights_default:
  "include_mixin font_weights_mixin [] rt = (Inr (font_weights None), rt)"
  by (simp add: include_mixin_def font_weights_mixin_def style_sheet_syntax font_weights_def
      Let_def)

lemma run_scale:
  "call_function scale_function [NumberValue m] rt =
     (Inr (NumberValue (sass_times (px 8) m)), rt)"
  by (simp add: call_function_def scale_function_def)

section \<open>All generators\<close>

text \<open>
  C8. Every generator is deterministic. Whatever the state of the Sass runtime (its global
  variables, the state behind \<open>random()\<close>, the counter behind \<open>unique-id()\<close>), the palette,
  the overlay, the font sizes, the font weights and \<open>scale\<close> yield the result that is a
  function of their arguments, and leave the runtime unchanged: two invocations on
  identical inputs, in the runtimes \<open>rt\<close> and \<open>rt'\<close>, give identical results.
\<close>

theorem generators_deterministic:
  "fst (include_mixin generate_palette_mixin [ColorValue c, Keyword p] rt) =
     fst (include_mixin generate_palette_mixin [ColorValue c, Keyword p] rt') \<and>
   include_mixin generate_palette_mixin [ColorValue c, Keyword p] rt =
     (Inr \<lparr>class_rules = [], custom_properties = generate_palette c (Some p)\<rparr>, rt) \<and>
   fst (include_mixin generate_palette_mixin [ColorValue c] rt) =
     fst (include_mixin generate_palette_mixin [ColorValue c] rt') \<and>
   include_mixin generate_palette_mixin [ColorValue c] rt =
     (Inr \<lparr>class_rules = [], custom_properties = generate_palette c None\<rparr>, rt) \<and>
   fst (include_mixin generate_layouts_overlay_mixin [ColorValue c, Keyword n] rt) =
     fst (include_mixin generate_layouts_overlay_mixin [ColorValue c, Keyword n] rt') \<and>
   include_mixin generate_layouts_overlay_mixin [ColorValue c, Keyword n] rt =
     (Inr \<lparr>class_rules = [], custom_properties = generate_layouts_overlay c n\<rparr>, rt) \<and>
   fst (include_mixin font_sizes_mixin [Keyword q] rt) =
     fst (include_mixin font_sizes_mixin [Keyword q] rt') \<and>
   include_mixin font_sizes_mixin [Keyword q] rt = (Inr (font_sizes (Some q)), rt) \<and>
   fst (include_mixin font_sizes_mixin [] rt) = fst (include_mixin font_sizes_mixin [] rt') \<and>
   include_mixin font_sizes_mixin [] rt = (Inr (font_sizes None), rt) \<and>
   fst (include_mixin font_weights_mixin [Keyword q] rt) =
     fst (include_mixin font_weights_mixin [Keyword q] rt') \<and>
   include_mixin font_weights_mixin [Keyword q] rt = (Inr (font_weights (Some q)), rt) \<and>
   fst (include_mixin font_weights_mixin [] rt) = fst (include_mixin font_weights_mixin [] rt') \<and>
   include_mixin font_weights_mixin [] rt = (Inr (font_weights None), rt) \<and>
   fst (call_function scale_function [NumberValue m] rt) =
     fst (call_function scale_function [NumberValue m] rt') \<and>
   (\<exists>r. scale m = Inr r \<and>
      call_function scale_function [NumberValue m] rt = (Inr (NumberValue r), rt))"
  by (simp add: run_generate_palette run_generate_palette_default run_generate_layouts_overlay
      run_font_sizes run_font_sizes_default run_font_weights run_font_weights_default
      run_scale scale_def)

text \<open>
  C9. Within one invocation no two emitted tokens share a name: the custom properties of the
  palette, of the overlay, of the font sizes and of the font weights are pairwise different
  for every prefix, and so are the selectors of the class rules.
\<close>

theorem token_names_distinct:
  "distinct (map fst (generate_palette c p)) \<and>
   distinct (map fst (generate_layouts_overlay c n)) \<and>
   distinct (map fst (custom_properties (font_sizes q))) \<and>
   distinct (map fst (class_rules (font_sizes q))) \<and>
   distinct (map fst (custom_properties (font_weights r))) \<and>
   distinct (map fst (class_rules (font_weights r)))"
  by (simp add: generate_palette_def generate_layouts_overlay_def font_sizes_def
      font_weights_def Let_def)

end
